theory Spec2Isabelle
  imports Complex_Main "HOL-Library.AList"
begin

section \<open>Data model\<close>

text \<open>
  The annotated document of the label viewer. JavaScript values are embedded as follows:
  an array is a list, an index into an array is a \<open>nat\<close>, a label id is an \<open>int\<close>,
  a property that may be \<open>null\<close> or \<open>undefined\<close> is an \<open>option\<close>, a float is a
  \<open>real\<close> (rounding is not modelled, \<open>NaN\<close> is not a value of the model). The fields
  \<open>labelId\<close>, \<open>textureCoords\<close> and \<open>color\<close> of a face are \<open>faceLabelId\<close>,
  \<open>faceTextureCoords\<close> and \<open>faceColor\<close> here, the fields \<open>id\<close>, \<open>name\<close>, \<open>color\<close>,
  \<open>pointCount\<close> and \<open>faceCount\<close> of a label carry the prefix \<open>label_\<close>.
\<close>

record point =
  position :: "real list"
  color :: "real list"
  labelId :: "int option"
  textureCoords :: "real list option"

record face =
  indices :: "nat list"
  faceLabelId :: "int option"
  faceTextureCoords :: "real list option"
  faceColor :: "real list option"

record label =
  label_id :: int
  label_name :: string
  label_color :: string
  visible :: "bool option"
  label_pointCount :: "int option"
  label_faceCount :: "int option"

text \<open>
  Errors of the runtime: a \<open>TypeError\<close> (a property read on \<open>undefined\<close>), a \<open>RangeError\<close>
  (a bad array length or a read outside a buffer), and an \<open>Error\<close> thrown with a message.
\<close>

datatype js_error = TypeError | RangeError | JsError string

text \<open>
  JavaScript truthiness of a label id, as tested by \<open>x.labelId && ...\<close> and
  \<open>x.labelId || d\<close>: \<open>null\<close>, \<open>undefined\<close> and \<open>0\<close> are falsy.
\<close>

definition truthy :: "int option \<Rightarrow> bool" where
  "truthy l = (case l of None \<Rightarrow> False | Some n \<Rightarrow> n \<noteq> 0)"

section \<open>Selection derivation: \<open>src/utils/selectionUtils.js\<close>\<close>

text \<open>
  The third argument of \<open>calculateSelectedFaces\<close> is documented as a \<open>Set\<close>; the store keeps
  \<open>selectedPoints\<close> as an array. The guard of the function reads \<open>.size\<close>, which a
  \<open>Set\<close> has (the number of its distinct members) and an array has not, so both shapes
  are kept apart.
\<close>

datatype selection = SetSel "nat list" | ArraySel "nat list"

fun sel_size :: "selection \<Rightarrow> nat option" where
  "sel_size (SetSel xs) = Some (length (remdups xs))"
| "sel_size (ArraySel xs) = None"

fun sel_members :: "selection \<Rightarrow> nat list" where
  "sel_members (SetSel xs) = xs"
| "sel_members (ArraySel xs) = xs"

text \<open>\<open>labelVisibilityMap\<close>: \<open>Map.set\<close> for every label in order, a later entry overriding.\<close>

definition labelVisibilityMap :: "label list \<Rightarrow> (int \<rightharpoonup> bool option)" where
  "labelVisibilityMap labels = foldl (\<lambda>m l. m(label_id l \<mapsto> visible l)) Map.empty labels"

text \<open>\<open>face.labelId && labelVisibilityMap.get(face.labelId) === false\<close>\<close>

definition face_hidden :: "(int \<rightharpoonup> bool option) \<Rightarrow> face \<Rightarrow> bool" where
  "face_hidden vis f =
     (case faceLabelId f of
        None \<Rightarrow> False
      | Some n \<Rightarrow> n \<noteq> 0 \<and> vis n = Some (Some False))"

text \<open>The two adjacency policies; any other mode string selects nothing.\<close>

definition face_qualifies :: "string \<Rightarrow> nat list \<Rightarrow> face \<Rightarrow> bool" where
  "face_qualifies meshSelectionMode selectedPointsSet f =
     (if meshSelectionMode = ''TOUCHING''
        then list_ex (\<lambda>idx. idx \<in> set selectedPointsSet) (indices f)
      else if meshSelectionMode = ''ENCLOSED''
        then list_all (\<lambda>idx. idx \<in> set selectedPointsSet) (indices f)
      else False)"

text \<open>
  The result is a JavaScript \<open>Set\<close> of face indices, kept as the list of its members in
  insertion order.
\<close>

definition calculateSelectedFaces ::
  "face list option \<Rightarrow> label list \<Rightarrow> selection option \<Rightarrow> string \<Rightarrow> nat list" where
  "calculateSelectedFaces faces labels selectedPoints meshSelectionMode =
     (case faces of
        None \<Rightarrow> []
      | Some fs \<Rightarrow>
          if fs = [] then []
          else (case selectedPoints of
                  None \<Rightarrow> []
                | Some sel \<Rightarrow>
                    if sel_size sel = Some 0 then []
                    else map fst
                           (filter (\<lambda>(faceIndex, f).
                                      \<not> face_hidden (labelVisibilityMap labels) f \<and>
                                      face_qualifies meshSelectionMode (sel_members sel) f)
                              (enumerate 0 fs))))"

section \<open>Colour normalisation: \<open>normalizeColorValue\<close> of \<open>src/utils/plyParser.js\<close>\<close>

text \<open>
  The source multiplies by the literal \<open>0.00392156862745098\<close> (its comment: 1/255). The
  model keeps the literal as a real number; the rounding of the product is not modelled.
\<close>

definition normalizeColorValue :: "real \<Rightarrow> real" where
  "normalizeColorValue value =
     (let normalized = (if value > 1 then value * 0.00392156862745098 else value)
      in if normalized < 0 then 0 else if normalized > 1 then 1 else normalized)"

section \<open>Point-cloud decode: \<open>parsePLY\<close> of \<open>src/utils/plyParser.js\<close>\<close>

text \<open>
  A JavaScript number read from a file: a real number, or \<open>NaN\<close> (what \<open>parseInt\<close> and
  \<open>parseFloat\<close> return for text that is no number).
\<close>

datatype jsnum = Num real | NaN

subsection \<open>Strings and the runtime\<close>

text \<open>
  The buffer is a list of bytes, a byte being a \<open>char\<close>. A JavaScript string is the list
  of its UTF-16 code units; \<open>lit\<close> is a string literal of the source, whose characters are
  all ASCII.
\<close>

type_synonym jsstring = "nat list"







definition nth_opt :: "'a list \<Rightarrow> nat \<Rightarrow> 'a option" where
  "nth_opt xs i = (if i < length xs then Some (xs ! i) else None)"





subsection \<open>The header: step 1 of \<open>parsePLY\<close>\<close>








subsection \<open>\<open>parseAsciiPLY\<close>\<close>

text \<open>
  The points and faces that the parsers build. \<open>new Array(n)\<close> makes an array of \<open>n\<close>
  holes; a slot that the loop skips stays a hole, which reads as \<open>undefined\<close>. An array
  with holes is a list of options, \<open>None\<close> for a hole.
\<close>

record ply_point =
  pp_position :: "jsnum list"
  pp_color :: "jsnum list"
  pp_labelId :: "jsnum option"
  pp_textureCoords :: "jsnum list option"

record ply_face =
  pf_indices :: "jsnum list"
  pf_labelId :: "jsnum option"
  pf_textureCoords :: "jsnum list option"
  pf_color :: "jsnum list option"


text \<open>
  \<open>new Array(count)\<close> throws a \<open>RangeError\<close> unless \<open>count\<close> is an integer in
  \<open>[0, 2^32)\<close>; \<open>NaN\<close> is none.
\<close>

definition array_length :: "jsnum \<Rightarrow> js_error + nat" where
  "array_length c =
     (case c of
        NaN \<Rightarrow> Inl RangeError
      | Num r \<Rightarrow>
          if of_int \<lfloor>r\<rfloor> = r \<and> 0 \<le> r \<and> r < 2 ^ 32 then Inr (nat \<lfloor>r\<rfloor>)
          else Inl RangeError)"














subsection \<open>\<open>readDataValue\<close> and \<open>parseBinaryPLY\<close>\<close>


















subsection \<open>\<open>parsePLY\<close>: steps 2 to 5\<close>





datatype material = Preloaded string | TextureMaterial jsstring jsstring material


text \<open>
  Step 4: \<open>for (const point of points)\<close> visits every slot; at a hole \<open>point\<close> is
  \<open>undefined\<close> and reading \<open>point.labelId\<close> throws a \<open>TypeError\<close>. The same for faces.
\<close>

fun point_stats ::
  "ply_point option list \<Rightarrow> (jsnum \<times> int) list \<times> int \<Rightarrow>
   js_error + ((jsnum \<times> int) list \<times> int)" where
  "point_stats [] acc = Inr acc"
| "point_stats (None # ps) acc = Inl TypeError"
| "point_stats (Some p # ps) (stats, labeledCount) =
     (case pp_labelId p of
        None \<Rightarrow> point_stats ps (stats, labeledCount)
      | Some l \<Rightarrow>
          point_stats ps
            (AList.update l ((case map_of stats l of None \<Rightarrow> 0 | Some c \<Rightarrow> c) + 1) stats,
             labeledCount + 1))"

fun face_stats ::
  "ply_face option list \<Rightarrow> (jsnum \<times> int) list \<times> int \<Rightarrow>
   js_error + ((jsnum \<times> int) list \<times> int)" where
  "face_stats [] acc = Inr acc"
| "face_stats (None # fs) acc = Inl TypeError"
| "face_stats (Some f # fs) (stats, labeledFaceCount) =
     (case pf_labelId f of
        None \<Rightarrow> face_stats fs (stats, labeledFaceCount)
      | Some l \<Rightarrow>
          if l \<noteq> Num (- 1)
          then face_stats fs
                 (AList.update l ((case map_of stats l of None \<Rightarrow> 0 | Some c \<Rightarrow> c) + 1) stats,
                  labeledFaceCount + 1)
          else face_stats fs (stats, labeledFaceCount))"







subsection \<open>The data that a header asks for, and the data that is present\<close>















section \<open>Scene graph handles kept by the store\<close>

text \<open>
  A node of the scene graph: its object identity \<open>oid\<close>, its \<open>uuid\<close> property, whether it
  is a mesh, the reference to its geometry object (if any) and its children. The mutable
  parts of a node (its \<open>userData\<close> bag, the attributes of its geometry) live in a store,
  see the mesh-exchange section.
\<close>

datatype object3d =
  Object3D (oid: nat) (uuid: nat) (isMesh: bool) (geometry: "nat option")
    (children: "object3d list")

record range =
  rstart :: int
  rend :: int

record interactionMapping =
  meshToPointRange :: "(nat \<rightharpoonup> range) option"
  meshToFaceRange :: "(nat \<rightharpoonup> range) option"

section \<open>Mesh-exchange encode: \<open>exportGLB\<close> (\<open>src/utils/plyParser.js\<close>, from line 464)\<close>

text \<open>
  The scene graph is shared with the renderer, so the model keeps the mutable parts of its
  objects in a store: the \<open>userData\<close> bag of a node under the node's identity, the
  attributes of a geometry under the geometry's reference. Two nodes that hold the same
  geometry reference share its attributes. \<open>allocated\<close> bounds the identities in use.
\<close>

text \<open>
  A buffer attribute: its array and item size; \<open>count\<close> is the number of items. Only
  integer attributes are written by the export.
\<close>

datatype attribute = FloatAttribute "real list" nat | Int32Attribute "int list" nat

fun attribute_count :: "attribute \<Rightarrow> nat" where
  "attribute_count (FloatAttribute array itemSize) = length array div itemSize"
| "attribute_count (Int32Attribute array itemSize) = length array div itemSize"

text \<open>The values that the export stores in a \<open>userData\<close> bag; other entries are opaque.\<close>

datatype ud_value =
    UdFaceLabels "int list"
  | UdLabelDefinitions "label list"
  | UdOriginalHeader string
  | UdOther string

record store =
  userDataOf :: "nat \<Rightarrow> (string \<times> ud_value) list"
  geometryOf :: "nat \<Rightarrow> (string \<times> attribute) list"
  allocated :: nat

text \<open>
  \<open>Object3D.traverse(callback)\<close>: the callback sees the node, then the nodes below each
  child in order. \<open>meshes\<close> is the array that \<open>if (node.isMesh) push(node)\<close> collects.
\<close>

fun traverse :: "object3d \<Rightarrow> object3d list" where
  "traverse (Object3D i u m g cs) = Object3D i u m g cs # concat (map traverse cs)"

definition meshes :: "object3d \<Rightarrow> object3d list" where
  "meshes scene = filter isMesh (traverse scene)"

text \<open>
  \<open>originalScene.clone(true)\<close> is a method of the scene library (three.js), which is not
  part of the repository; \<open>exportGLB\<close> below takes the clone operation as a parameter.
  \<open>three_clone\<close> is the library's operation: \<open>Object3D.copy\<close> makes a new object with a
  new \<open>uuid\<close> for every node, copies \<open>userData\<close> by value
  (\<open>JSON.parse(JSON.stringify(source.userData))\<close>) and clones the children recursively;
  \<open>Mesh.copy\<close> assigns \<open>this.geometry = source.geometry\<close>, so a cloned mesh refers to
  the geometry object of its original. New identities are the old ones shifted by the
  number of identities in use.
\<close>

fun three_clone_node :: "nat \<Rightarrow> object3d \<Rightarrow> object3d" where
  "three_clone_node k (Object3D i u m g cs) =
     Object3D (i + k) (u + k) m g (map (three_clone_node k) cs)"

definition three_clone :: "store \<Rightarrow> object3d \<Rightarrow> store \<times> object3d" where
  "three_clone st scene =
     (let k = allocated st
      in (st\<lparr>userDataOf :=
               foldl (\<lambda>ud n. ud(oid n + k := userDataOf st (oid n))) (userDataOf st)
                 (traverse scene),
             allocated := k + k\<rparr>,
          three_clone_node k scene))"

text \<open>
  The errors that \<open>exportGLB\<close> throws or rejects with: the two validation errors, the
  mesh-count mismatch of the parallel traversal (with both counts), and a failure that
  the scene encoder reports.
\<close>

datatype export_error =
    MissingOriginalScene
  | MissingInteractionMapping
  | ParallelTraversalFailed nat nat
  | ExporterFailed string

text \<open>
  \<open>pointLabelMap\<close>: an entry for every point whose label id is neither \<open>null\<close>,
  \<open>undefined\<close> nor 0. \<open>faceLabelIds\<close>: \<open>face.labelId || 0\<close> for every face, the empty
  array when \<open>faces\<close> is \<open>null\<close> or empty.
\<close>

definition pointLabelMap :: "point list \<Rightarrow> (nat \<times> int) list" where
  "pointLabelMap ps =
     concat (map (\<lambda>(index, p). case labelId p of
                                   None \<Rightarrow> []
                                 | Some n \<Rightarrow> if n \<noteq> 0 then [(index, n)] else [])
               (enumerate 0 ps))"

definition faceLabelIds :: "face list option \<Rightarrow> int list" where
  "faceLabelIds fs =
     (case fs of
        None \<Rightarrow> []
      | Some fl \<Rightarrow> map (\<lambda>f. case faceLabelId f of None \<Rightarrow> 0 | Some n \<Rightarrow> n) fl)"

text \<open>
  \<open>Array.prototype.slice(start, end)\<close> on integers: a negative bound counts from the end,
  and both bounds are clamped to the array.
\<close>

definition js_slice :: "'a list \<Rightarrow> int \<Rightarrow> int \<Rightarrow> 'a list" where
  "js_slice xs start fin =
     (let len = int (length xs);
          k = (if start < 0 then max (len + start) 0 else min start len);
          final = (if fin < 0 then max (len + fin) 0 else min fin len)
      in take (nat (final - k)) (drop (nat k) xs))"

text \<open>A store into an \<open>Int32Array\<close> wraps modulo \<open>2^32\<close> into the signed range.\<close>

definition toInt32 :: "int \<Rightarrow> int" where
  "toInt32 n = (n + 2 ^ 31) mod 2 ^ 32 - 2 ^ 31"

text \<open>
  Step 4e: \<open>labelIds[localIndex] = pointLabelMap.get(pointRange.start + localIndex) || 0\<close>
  when the global index is below \<open>points.length\<close>; other entries stay 0.
\<close>

definition point_label_array :: "point list \<Rightarrow> range \<Rightarrow> nat \<Rightarrow> int list" where
  "point_label_array ps pointRange vertexCount =
     map (\<lambda>localIndex.
            let globalIndex = rstart pointRange + int localIndex
            in if globalIndex < int (length ps)
               then toInt32 (case (if 0 \<le> globalIndex
                                    then map_of (pointLabelMap ps) (nat globalIndex)
                                    else None) of
                               None \<Rightarrow> 0
                             | Some n \<Rightarrow> n)
               else 0)
       [0 ..< vertexCount]"

text \<open>The label definition written to the file: id, name, colour and visibility only.\<close>

definition export_label :: "label \<Rightarrow> label" where
  "export_label l =
     \<lparr>label_id = label_id l, label_name = label_name l, label_color = label_color l,
      visible = visible l, label_pointCount = None, label_faceCount = None\<rparr>"

text \<open>
  Step 4e: when some point is labelled and the geometry has a \<open>position\<close> attribute,
  \<open>geometry.setAttribute('_label_id', ...)\<close> on the geometry of the cloned mesh.
\<close>

definition attach_point_labels :: "point list \<Rightarrow> range \<Rightarrow> nat \<Rightarrow> store \<Rightarrow> store" where
  "attach_point_labels ps pointRange g st =
     (if pointLabelMap ps \<noteq> []
      then (case map_of (geometryOf st g) ''position'' of
              None \<Rightarrow> st
            | Some positionAttribute \<Rightarrow>
                st\<lparr>geometryOf := (geometryOf st)
                     (g := AList.update ''_label_id''
                             (Int32Attribute
                                (point_label_array ps pointRange
                                   (attribute_count positionAttribute)) 1)
                             (geometryOf st g))\<rparr>)
      else st)"

text \<open>\<open>node.userData[key] = v\<close>\<close>

definition set_userData :: "nat \<Rightarrow> string \<Rightarrow> ud_value \<Rightarrow> store \<Rightarrow> store" where
  "set_userData node key v st =
     st\<lparr>userDataOf := (userDataOf st)(node := AList.update key v (userDataOf st node))\<rparr>"

text \<open>Step 4f: \<open>clonedMesh.userData.faceLabels = faceLabelIds.slice(start, end)\<close>.\<close>

definition attach_face_labels :: "int list \<Rightarrow> range \<Rightarrow> nat \<Rightarrow> store \<Rightarrow> store" where
  "attach_face_labels fl faceRange node st =
     (if length fl > 0
      then set_userData node ''faceLabels''
             (UdFaceLabels (js_slice fl (rstart faceRange) (rend faceRange))) st
      else st)"

text \<open>Step 4g: label definitions and the original header, on the mesh at position 0 only.\<close>

definition attach_global_metadata ::
  "label list \<Rightarrow> string option \<Rightarrow> nat \<Rightarrow> nat \<Rightarrow> store \<Rightarrow> store" where
  "attach_global_metadata ls originalHeader i node st =
     (if i = 0
      then (let st1 = (if length ls > 0
                       then set_userData node ''labelDefinitions''
                              (UdLabelDefinitions (map export_label ls)) st
                       else st)
            in case originalHeader of
                 None \<Rightarrow> st1
               | Some h \<Rightarrow> set_userData node ''originalHeader'' (UdOriginalHeader h) st1)
      else st)"

text \<open>
  One round of the loop 4c: \<open>continue\<close> when the cloned mesh has no geometry or the
  interaction map has no point range or no face range for the \<open>uuid\<close> of the original
  mesh.
\<close>

definition attach_mesh ::
  "(nat \<rightharpoonup> range) \<Rightarrow> (nat \<rightharpoonup> range) \<Rightarrow> point list \<Rightarrow> int list \<Rightarrow> label list \<Rightarrow>
   string option \<Rightarrow> nat \<Rightarrow> object3d \<Rightarrow> object3d \<Rightarrow> store \<Rightarrow> store" where
  "attach_mesh prm frm ps fl ls originalHeader i originalMesh clonedMesh st =
     (case geometry clonedMesh of
        None \<Rightarrow> st
      | Some g \<Rightarrow>
          (case prm (uuid originalMesh) of
             None \<Rightarrow> st
           | Some pointRange \<Rightarrow>
               (case frm (uuid originalMesh) of
                  None \<Rightarrow> st
                | Some faceRange \<Rightarrow>
                    attach_global_metadata ls originalHeader i (oid clonedMesh)
                      (attach_face_labels fl faceRange (oid clonedMesh)
                         (attach_point_labels ps pointRange g st)))))"

fun attach_loop ::
  "(nat \<rightharpoonup> range) \<Rightarrow> (nat \<rightharpoonup> range) \<Rightarrow> point list \<Rightarrow> int list \<Rightarrow> label list \<Rightarrow>
   string option \<Rightarrow> nat \<Rightarrow> object3d list \<Rightarrow> object3d list \<Rightarrow> store \<Rightarrow> store" where
  "attach_loop prm frm ps fl ls originalHeader i (om # oms) (cm # cms) st =
     attach_loop prm frm ps fl ls originalHeader (Suc i) oms cms
       (attach_mesh prm frm ps fl ls originalHeader i om cm st)"
| "attach_loop prm frm ps fl ls originalHeader i oms cms st = st"

text \<open>
  \<open>exportGLB\<close>. The scene encoder (\<open>GLTFExporter.parse\<close>) is a parameter; it receives the
  store and the clone. The result is the store after the call and either an error or
  the encoded buffer; the download that follows a successful encoding is not modelled.
\<close>

definition exportGLB ::
  "(store \<Rightarrow> object3d \<Rightarrow> store \<times> object3d) \<Rightarrow>
   (store \<Rightarrow> object3d \<Rightarrow> string \<Rightarrow> string + 'b) \<Rightarrow>
   store \<Rightarrow> object3d option \<Rightarrow> interactionMapping option \<Rightarrow> point list \<Rightarrow> string \<Rightarrow>
   face list option \<Rightarrow> label list \<Rightarrow> string option \<Rightarrow> store \<times> (export_error + 'b)" where
  "exportGLB clone exporter st originalScene mapping points fileName faces labels originalHeader =
     (case originalScene of
        None \<Rightarrow> (st, Inl MissingOriginalScene)
      | Some scene \<Rightarrow>
          (case mapping of
             None \<Rightarrow> (st, Inl MissingInteractionMapping)
           | Some m \<Rightarrow>
               (case meshToPointRange m of
                  None \<Rightarrow> (st, Inl MissingInteractionMapping)
                | Some prm \<Rightarrow>
                    (case meshToFaceRange m of
                       None \<Rightarrow> (st, Inl MissingInteractionMapping)
                     | Some frm \<Rightarrow>
                         (case clone st scene of
                            (st1, sceneToExport) \<Rightarrow>
                              (let originalMeshes = meshes scene;
                                   clonedMeshes = meshes sceneToExport
                               in if length originalMeshes \<noteq> length clonedMeshes
                                  then (st1, Inl (ParallelTraversalFailed
                                                   (length originalMeshes)
                                                   (length clonedMeshes)))
                                  else
                                    (let st2 = attach_loop prm frm points (faceLabelIds faces) labels
                                                 originalHeader 0 originalMeshes
                                                 clonedMeshes st1
                                     in (st2,
                                         case exporter st2 sceneToExport fileName of
                                           Inl e \<Rightarrow> Inl (ExporterFailed e)
                                         | Inr buffer \<Rightarrow> Inr buffer))))))))"

text \<open>The face-label array of a node, empty when the node carries none.\<close>

definition faceLabelsOf :: "store \<Rightarrow> object3d \<Rightarrow> int list" where
  "faceLabelsOf st node =
     (case map_of (userDataOf st (oid node)) ''faceLabels'' of
        Some (UdFaceLabels xs) \<Rightarrow> xs
      | _ \<Rightarrow> [])"

text \<open>
  The ranges \<open>rs\<close> (in order) partition \<open>[s, n)\<close>: each starts where the one before it
  ends, the first at \<open>s\<close>, the last ends at \<open>n\<close>; a missing range partitions nothing.
\<close>

fun partitions_from :: "int \<Rightarrow> range option list \<Rightarrow> int \<Rightarrow> bool" where
  "partitions_from s [] n = (s = n)"
| "partitions_from s (r # rs) n =
     (case r of
        None \<Rightarrow> False
      | Some rg \<Rightarrow> rstart rg = s \<and> s \<le> rend rg \<and> partitions_from (rend rg) rs n)"

subsection \<open>A scene with two meshes\<close>

text \<open>
  A group node with two mesh children, each with a geometry of three vertices; three
  points, the first labelled 1; three faces, one on the first mesh and two on the second.
  The ranges are those \<open>parseGLB\<close> records for this scene.
\<close>

definition example_scene :: object3d where
  "example_scene =
     Object3D 0 0 False None [Object3D 1 1 True (Some 0) [], Object3D 2 2 True (Some 1) []]"

definition example_store :: store where
  "example_store =
     \<lparr>userDataOf = (\<lambda>n. []),
      geometryOf = (\<lambda>g. [(''position'', FloatAttribute [0, 0, 0, 1, 0, 0, 0, 1, 0] 3)]),
      allocated = 3\<rparr>"

definition example_mapping :: interactionMapping where
  "example_mapping =
     \<lparr>meshToPointRange = Some [1 \<mapsto> \<lparr>rstart = 0, rend = 3\<rparr>, 2 \<mapsto> \<lparr>rstart = 3, rend = 6\<rparr>],
      meshToFaceRange = Some [1 \<mapsto> \<lparr>rstart = 0, rend = 1\<rparr>, 2 \<mapsto> \<lparr>rstart = 1, rend = 3\<rparr>]\<rparr>"

definition example_points :: "point list" where
  "example_points =
     [\<lparr>position = [0, 0, 0], color = [1, 1, 1], labelId = Some 1, textureCoords = None\<rparr>,
      \<lparr>position = [1, 0, 0], color = [1, 1, 1], labelId = None, textureCoords = None\<rparr>,
      \<lparr>position = [0, 1, 0], color = [1, 1, 1], labelId = Some 0, textureCoords = None\<rparr>]"

definition example_faces :: "face list" where
  "example_faces =
     [\<lparr>indices = [0, 1, 2], faceLabelId = Some 7, faceTextureCoords = None, faceColor = None\<rparr>,
      \<lparr>indices = [3, 4, 5], faceLabelId = None, faceTextureCoords = None, faceColor = None\<rparr>,
      \<lparr>indices = [3, 5, 4], faceLabelId = Some 2, faceTextureCoords = None, faceColor = None\<rparr>]"

section \<open>Annotation store: \<open>src/store/annotationStore.jsx\<close>\<close>

text \<open>
  \<open>labelStats\<close> and \<open>faceLabelStats\<close> are objects keyed by \<open>labelId.toString()\<close>; the
  decimal string of an integer determines it, so the keys are kept as integers. An
  assignment \<open>o[k] = v\<close> is \<open>AList.update\<close>, \<open>delete o[k]\<close> is \<open>AList.delete\<close>.
\<close>

record labelInfo =
  labelStats :: "(int \<times> int) list"
  faceLabelStats :: "(int \<times> int) list"
  labeledCount :: int
  unlabeledCount :: int
  faceLabeledCount :: int
  faceUnlabeledCount :: int

text \<open>
  The fields of the state that the document commands read or write. The remaining fields
  of \<open>initialState\<close> (point size, view mode, colours, transform state, ...) are written
  only by their own setter commands, which touch none of the fields below.
\<close>

record state =
  points :: "point list"
  labels :: "label list"
  selectedPoints :: "nat list"
  selectedPointsHistory :: "nat list list"
  history :: "point list list"
  fileHeader :: "string option"
  fileFields :: "string list option"
  labelInfo :: "labelInfo option"
  hasMesh :: bool
  faces :: "face list"
  isPointCloudVisible :: bool
  selectedFaces :: "nat list"
  isManualFaceSelection :: bool
  materials :: "string option"
  textureFile :: "string option"
  originalScene :: "object3d option"
  interactionMapping :: "interactionMapping option"
  isNewFileLoaded :: bool

definition initialState :: state where
  "initialState =
     \<lparr>points = [], labels = [], selectedPoints = [], selectedPointsHistory = [],
      history = [], fileHeader = None, fileFields = Some [], labelInfo = None,
      hasMesh = False, faces = [], isPointCloudVisible = True, selectedFaces = [],
      isManualFaceSelection = False, materials = None, textureFile = None,
      originalScene = None, interactionMapping = None, isNewFileLoaded = False\<rparr>"

text \<open>
  A face of a decoded payload is a face object or, in the old format, a bare index array.
\<close>

datatype payload_face = FaceObject face | FaceArray "nat list"

record payload =
  p_points :: "point list"
  p_faces :: "payload_face list option"
  p_materials :: "string option"
  p_textureFile :: "string option"
  p_header :: "string option"
  p_fields :: "string list option"
  p_labelInfo :: "labelInfo option"
  p_originalScene :: "object3d option"
  p_interactionMapping :: "interactionMapping option"
  p_labels :: "label list option"

datatype selected_faces_payload = BareFaces "nat list" | TaggedFaces "nat list" bool

datatype action =
    SET_POINTS "point list"
  | SET_PLY_DATA "point list" "string option" "string list option" "labelInfo option"
  | LOAD_FILE_DATA payload
  | ADD_LABEL label
  | UPDATE_LABEL label
  | DELETE_LABEL int
  | SET_SELECTED_POINTS "nat list"
  | APPLY_LABELS "nat list" "int option"
  | UNDO
  | TOGGLE_LABEL_VISIBILITY int
  | UNDO_SELECTION
  | CLEAR_SELECTION
  | INVERT_SELECTION
  | UPDATE_SELECTED_FACES selected_faces_payload
  | APPLY_LABEL_TO_FACES "nat list" "int option"
  | UI_SETTING

text \<open>\<open>new Set(xs)\<close>: the distinct members of \<open>xs\<close>, each at its first occurrence.\<close>

definition new_Set :: "nat list \<Rightarrow> nat list" where
  "new_Set xs = rev (remdups (rev xs))"

subsection \<open>\<open>LOAD_FILE_DATA\<close>\<close>

fun load_face :: "payload_face \<Rightarrow> face" where
  "load_face (FaceObject f) =
     \<lparr>indices = indices f,
      faceLabelId = (if truthy (faceLabelId f) then faceLabelId f else None),
      faceTextureCoords = faceTextureCoords f,
      faceColor = faceColor f\<rparr>"
| "load_face (FaceArray is) =
     \<lparr>indices = is, faceLabelId = None, faceTextureCoords = None, faceColor = None\<rparr>"

definition has_exact_counts :: "label list option \<Rightarrow> bool" where
  "has_exact_counts ls =
     (case ls of
        None \<Rightarrow> False
      | Some ls \<Rightarrow>
          ls \<noteq> [] \<and> list_ex (\<lambda>l. label_faceCount l \<noteq> None \<or> label_pointCount l \<noteq> None) ls)"

text \<open>
  The \<open>labels.forEach\<close> of the load: the accumulator is
  \<open>(labelStats, faceLabelStats, totalLabeledPoints, totalLabeledFaces)\<close>.
\<close>

definition load_count_step ::
  "(int \<times> int) list \<times> (int \<times> int) list \<times> int \<times> int \<Rightarrow> label \<Rightarrow>
   (int \<times> int) list \<times> (int \<times> int) list \<times> int \<times> int" where
  "load_count_step acc l =
     (case acc of (ls, fls, tp, tf) \<Rightarrow>
        (let (ls1, tp1) =
               (case label_pointCount l of
                  None \<Rightarrow> (ls, tp)
                | Some c \<Rightarrow> if c > 0 then (AList.update (label_id l) c ls, tp + c) else (ls, tp));
             (fls1, tf1) =
               (case label_faceCount l of
                  None \<Rightarrow> (fls, tf)
                | Some c \<Rightarrow> if c > 0 then (AList.update (label_id l) c fls, tf + c) else (fls, tf))
         in (ls1, fls1, tp1, tf1)))"

definition load_labelInfo :: "payload \<Rightarrow> face list \<Rightarrow> labelInfo option" where
  "load_labelInfo p facesData =
     (if has_exact_counts (p_labels p)
      then (case foldl load_count_step ([], [], 0, 0)
                   (case p_labels p of None \<Rightarrow> [] | Some ls \<Rightarrow> ls) of
              (ls, fls, tp, tf) \<Rightarrow>
                Some \<lparr>labelStats = ls, faceLabelStats = fls, labeledCount = tp,
                      unlabeledCount = max 0 (int (length (p_points p)) - tp),
                      faceLabeledCount = tf,
                      faceUnlabeledCount = max 0 (int (length facesData) - tf)\<rparr>)
      else p_labelInfo p)"

definition load_file_data :: "state \<Rightarrow> payload \<Rightarrow> state" where
  "load_file_data s p =
     (let hasMesh' = (case p_faces p of None \<Rightarrow> False | Some fs \<Rightarrow> length fs > 0);
          facesData = (if hasMesh' then map load_face (case p_faces p of None \<Rightarrow> [] | Some fs \<Rightarrow> fs)
                       else [])
      in s\<lparr>points := p_points p,
            faces := facesData,
            hasMesh := hasMesh',
            materials := p_materials p,
            textureFile := p_textureFile p,
            originalScene := p_originalScene p,
            interactionMapping := p_interactionMapping p,
            labels := (case p_labels p of None \<Rightarrow> [] | Some ls \<Rightarrow> ls),
            isPointCloudVisible := \<not> hasMesh',
            selectedFaces := [],
            fileHeader := p_header p,
            fileFields := p_fields p,
            labelInfo := load_labelInfo p facesData,
            history := history s @ [points s],
            isNewFileLoaded := True\<rparr>)"

subsection \<open>\<open>APPLY_LABELS\<close>\<close>

text \<open>\<open>stats[k] = (stats[k] || 1) - 1; if (stats[k] <= 0) delete stats[k]\<close>\<close>

definition stat_decrement :: "(int \<times> int) list \<Rightarrow> int \<Rightarrow> (int \<times> int) list" where
  "stat_decrement stats k =
     (let v = (case map_of stats k of None \<Rightarrow> 1 | Some c \<Rightarrow> if c = 0 then 1 else c) - 1
      in if v \<le> 0 then AList.delete k stats else AList.update k v stats)"

text \<open>\<open>stats[k] = (stats[k] || 0) + 1\<close>\<close>

definition stat_increment :: "(int \<times> int) list \<Rightarrow> int \<Rightarrow> (int \<times> int) list" where
  "stat_increment stats k =
     AList.update k ((case map_of stats k of None \<Rightarrow> 0 | Some c \<Rightarrow> c) + 1) stats"

definition apply_label_to_points :: "nat list \<Rightarrow> int option \<Rightarrow> point list \<Rightarrow> point list" where
  "apply_label_to_points pointIndices l ps =
     map (\<lambda>(index, p). if index \<in> set pointIndices then p\<lparr>labelId := l\<rparr> else p)
       (enumerate 0 ps)"

text \<open>
  The part of one \<open>forEach\<close> step that handles one label id: \<open>id && id !== 0\<close> holds for a
  non-zero number only.
\<close>

definition remove_old_label :: "int option \<Rightarrow> (int \<times> int) list \<times> int \<Rightarrow> (int \<times> int) list \<times> int" where
  "remove_old_label l acc =
     (case acc of (stats, delta) \<Rightarrow>
        (case l of
           None \<Rightarrow> (stats, delta)
         | Some n \<Rightarrow> if n \<noteq> 0 then (stat_decrement stats n, delta - 1) else (stats, delta)))"

definition add_new_label :: "int option \<Rightarrow> (int \<times> int) list \<times> int \<Rightarrow> (int \<times> int) list \<times> int" where
  "add_new_label l acc =
     (case acc of (stats, delta) \<Rightarrow>
        (case l of
           None \<Rightarrow> (stats, delta)
         | Some n \<Rightarrow> if n \<noteq> 0 then (stat_increment stats n, delta + 1) else (stats, delta)))"

text \<open>
  \<open>pointIndices.forEach\<close>: \<open>state.points[index]\<close> is \<open>undefined\<close> for an index out of
  range, and reading \<open>oldPoint.labelId\<close> then throws a \<open>TypeError\<close>.
\<close>

fun point_stats_loop ::
  "point list \<Rightarrow> point list \<Rightarrow> nat list \<Rightarrow> (int \<times> int) list \<times> int \<Rightarrow>
   js_error + ((int \<times> int) list \<times> int)" where
  "point_stats_loop oldPoints newPoints [] acc = Inr acc"
| "point_stats_loop oldPoints newPoints (index # rest) acc =
     (if index < length oldPoints
      then point_stats_loop oldPoints newPoints rest
             (add_new_label (labelId (newPoints ! index))
                (remove_old_label (labelId (oldPoints ! index)) acc))
      else Inl TypeError)"

definition default_labelInfo_points :: "state \<Rightarrow> labelInfo" where
  "default_labelInfo_points s =
     \<lparr>labelStats = [], faceLabelStats = [], labeledCount = 0,
      unlabeledCount = int (length (points s)), faceLabeledCount = 0,
      faceUnlabeledCount = 0\<rparr>"

definition apply_labels :: "state \<Rightarrow> nat list \<Rightarrow> int option \<Rightarrow> js_error + state" where
  "apply_labels s pointIndices l =
     (let newPoints = apply_label_to_points pointIndices l (points s);
          currentLabelInfo =
            (case labelInfo s of None \<Rightarrow> default_labelInfo_points s | Some li \<Rightarrow> li)
      in case point_stats_loop (points s) newPoints pointIndices
                (labelStats currentLabelInfo, 0) of
           Inl e \<Rightarrow> Inl e
         | Inr (stats, labeledCountDelta) \<Rightarrow>
             Inr (s\<lparr>points := newPoints,
                    labelInfo := Some (currentLabelInfo
                      \<lparr>labeledCount := labeledCount currentLabelInfo + labeledCountDelta,
                       unlabeledCount := unlabeledCount currentLabelInfo - labeledCountDelta,
                       labelStats := stats\<rparr>),
                    history := history s @ [points s]\<rparr>))"

subsection \<open>\<open>APPLY_LABEL_TO_FACES\<close>\<close>

definition apply_label_to_faces_list :: "nat list \<Rightarrow> int option \<Rightarrow> face list \<Rightarrow> face list" where
  "apply_label_to_faces_list faceIndices l fs =
     map (\<lambda>(index, f). if index \<in> set faceIndices then f\<lparr>faceLabelId := l\<rparr> else f)
       (enumerate 0 fs)"

text \<open>The face sentinels: \<open>id && id !== 0 && id !== -1\<close>.\<close>

definition remove_old_face_label ::
  "int option \<Rightarrow> (int \<times> int) list \<times> int \<Rightarrow> (int \<times> int) list \<times> int" where
  "remove_old_face_label l acc =
     (case acc of (stats, delta) \<Rightarrow>
        (case l of
           None \<Rightarrow> (stats, delta)
         | Some n \<Rightarrow>
             if n \<noteq> 0 \<and> n \<noteq> - 1 then (stat_decrement stats n, delta - 1) else (stats, delta)))"

definition add_new_face_label ::
  "int option \<Rightarrow> (int \<times> int) list \<times> int \<Rightarrow> (int \<times> int) list \<times> int" where
  "add_new_face_label l acc =
     (case acc of (stats, delta) \<Rightarrow>
        (case l of
           None \<Rightarrow> (stats, delta)
         | Some n \<Rightarrow>
             if n \<noteq> 0 \<and> n \<noteq> - 1 then (stat_increment stats n, delta + 1) else (stats, delta)))"

text \<open>
  \<open>faceIndices.forEach\<close>: both tests start with \<open>oldFace &&\<close> and \<open>newFace &&\<close>, so an index
  out of range is skipped.
\<close>

fun face_stats_loop ::
  "face list \<Rightarrow> face list \<Rightarrow> nat list \<Rightarrow> (int \<times> int) list \<times> int \<Rightarrow>
   (int \<times> int) list \<times> int" where
  "face_stats_loop oldFaces newFaces [] acc = acc"
| "face_stats_loop oldFaces newFaces (index # rest) acc =
     (if index < length oldFaces
      then face_stats_loop oldFaces newFaces rest
             (add_new_face_label (faceLabelId (newFaces ! index))
                (remove_old_face_label (faceLabelId (oldFaces ! index)) acc))
      else face_stats_loop oldFaces newFaces rest acc)"

definition default_labelInfo_faces :: "state \<Rightarrow> labelInfo" where
  "default_labelInfo_faces s =
     \<lparr>labelStats = [], faceLabelStats = [], labeledCount = 0,
      unlabeledCount = int (length (points s)), faceLabeledCount = 0,
      faceUnlabeledCount = int (length (faces s))\<rparr>"

definition apply_label_to_faces :: "state \<Rightarrow> nat list \<Rightarrow> int option \<Rightarrow> state" where
  "apply_label_to_faces s faceIndices l =
     (if \<not> hasMesh s then s
      else
        (let updatedFaces = apply_label_to_faces_list faceIndices l (faces s);
             currentFaceLabelInfo =
               (case labelInfo s of None \<Rightarrow> default_labelInfo_faces s | Some li \<Rightarrow> li)
         in case face_stats_loop (faces s) updatedFaces faceIndices
                   (faceLabelStats currentFaceLabelInfo, 0) of
              (stats, labeledFaceCountDelta) \<Rightarrow>
                s\<lparr>faces := updatedFaces,
                  labelInfo := Some (currentFaceLabelInfo
                    \<lparr>faceLabelStats := stats,
                     faceLabeledCount :=
                       faceLabeledCount currentFaceLabelInfo + labeledFaceCountDelta,
                     faceUnlabeledCount :=
                       faceUnlabeledCount currentFaceLabelInfo - labeledFaceCountDelta\<rparr>)\<rparr>))"

subsection \<open>Selection commands\<close>

definition set_selected_points :: "state \<Rightarrow> nat list \<Rightarrow> state" where
  "set_selected_points s newSelection =
     (if newSelection = selectedPoints s then s
      else s\<lparr>selectedPoints := newSelection,
             selectedFaces := [],
             isManualFaceSelection := False,
             selectedPointsHistory :=
               (let h = selectedPointsHistory s @ [selectedPoints s]
                in drop (length h - 10) h)\<rparr>)"

definition invert_selection :: "state \<Rightarrow> state" where
  "invert_selection s =
     (let invertedSelection =
            filter (\<lambda>i. i \<notin> set (selectedPoints s)) [0 ..< length (points s)];
          newState = s\<lparr>selectedPoints := invertedSelection\<rparr>
      in if hasMesh s \<and> length (faces s) > 0
         then newState\<lparr>selectedFaces :=
                new_Set (filter (\<lambda>i. i \<notin> set (selectedFaces s)) [0 ..< length (faces s)])\<rparr>
         else newState)"

definition update_selected_faces :: "state \<Rightarrow> selected_faces_payload \<Rightarrow> state" where
  "update_selected_faces s pl =
     (case pl of
        BareFaces fs \<Rightarrow> s\<lparr>selectedFaces := new_Set fs, isManualFaceSelection := False\<rparr>
      | TaggedFaces fs isManual \<Rightarrow>
          s\<lparr>selectedFaces := new_Set fs, isManualFaceSelection := isManual\<rparr>)"

subsection \<open>The reducer\<close>

fun annotationReducer :: "state \<Rightarrow> action \<Rightarrow> js_error + state" where
  "annotationReducer s (SET_POINTS ps) =
     Inr (s\<lparr>points := ps, history := history s @ [points s]\<rparr>)"
| "annotationReducer s (SET_PLY_DATA ps hdr flds li) =
     Inr (s\<lparr>points := ps, fileHeader := hdr, fileFields := flds, labelInfo := li,
            history := history s @ [points s]\<rparr>)"
| "annotationReducer s (LOAD_FILE_DATA p) = Inr (load_file_data s p)"
| "annotationReducer s (ADD_LABEL l) = Inr (s\<lparr>labels := labels s @ [l]\<rparr>)"
| "annotationReducer s (UPDATE_LABEL l) =
     Inr (s\<lparr>labels := map (\<lambda>l'. if label_id l' = label_id l then l else l') (labels s)\<rparr>)"
| "annotationReducer s (DELETE_LABEL i) =
     Inr (s\<lparr>labels := filter (\<lambda>l. label_id l \<noteq> i) (labels s)\<rparr>)"
| "annotationReducer s (SET_SELECTED_POINTS newSelection) =
     Inr (set_selected_points s newSelection)"
| "annotationReducer s (APPLY_LABELS pointIndices l) = apply_labels s pointIndices l"
| "annotationReducer s UNDO =
     (if length (history s) > 0
      then Inr (s\<lparr>points := last (history s), history := butlast (history s)\<rparr>)
      else Inr s)"
| "annotationReducer s (TOGGLE_LABEL_VISIBILITY i) =
     Inr (s\<lparr>labels :=
            map (\<lambda>l. if label_id l = i
                      then l\<lparr>visible := Some (case visible l of None \<Rightarrow> True | Some v \<Rightarrow> \<not> v)\<rparr>
                      else l) (labels s)\<rparr>)"
| "annotationReducer s UNDO_SELECTION =
     (if length (selectedPointsHistory s) > 0
      then Inr (s\<lparr>selectedPoints := last (selectedPointsHistory s),
                 selectedPointsHistory := butlast (selectedPointsHistory s)\<rparr>)
      else Inr s)"
| "annotationReducer s CLEAR_SELECTION = Inr (s\<lparr>selectedPoints := []\<rparr>)"
| "annotationReducer s INVERT_SELECTION = Inr (invert_selection s)"
| "annotationReducer s (UPDATE_SELECTED_FACES pl) = Inr (update_selected_faces s pl)"
| "annotationReducer s (APPLY_LABEL_TO_FACES faceIndices l) =
     Inr (apply_label_to_faces s faceIndices l)"
| "annotationReducer s UI_SETTING = Inr s"

text \<open>Commands are applied one at a time, in issue order; a throw ends the run.\<close>

fun run_commands :: "state \<Rightarrow> action list \<Rightarrow> js_error + state" where
  "run_commands s [] = Inr s"
| "run_commands s (a # as) =
     (case annotationReducer s a of Inl e \<Rightarrow> Inl e | Inr s' \<Rightarrow> run_commands s' as)"

subsection \<open>What the decoders hand to \<open>LOAD_FILE_DATA\<close>, and the statistics invariant\<close>

text \<open>
  The \<open>result\<close> object that \<open>parseGLB\<close> resolves with: it has no \<open>labelInfo\<close> and no
  \<open>fields\<close> property, \<open>faces\<close> is \<open>null\<close> when no face was extracted, and \<open>labels\<close> is
  the array of label definitions read from the first node that carries them.
\<close>

definition parseGLB_result ::
  "point list \<Rightarrow> face list \<Rightarrow> string option \<Rightarrow> object3d \<Rightarrow> interactionMapping \<Rightarrow>
   label list \<Rightarrow> string option \<Rightarrow> payload" where
  "parseGLB_result allPoints allFaces finalMaterials scene im labelDefinitions header =
     \<lparr>p_points = allPoints,
      p_faces = (if length allFaces > 0 then Some (map FaceObject allFaces) else None),
      p_materials = finalMaterials,
      p_textureFile = None,
      p_header = header,
      p_fields = None,
      p_labelInfo = None,
      p_originalScene = Some scene,
      p_interactionMapping = Some im,
      p_labels = Some labelDefinitions\<rparr>"

text \<open>
  The statistics invariant of the data model: the values of \<open>labelStats\<close> sum to
  \<open>labeledCount\<close>, labelled and unlabelled points add up to all points, and the same for
  faces.
\<close>

definition stats_invariant :: "state \<Rightarrow> bool" where
  "stats_invariant s =
     (case labelInfo s of
        None \<Rightarrow> False
      | Some li \<Rightarrow>
          sum_list (map snd (labelStats li)) = labeledCount li \<and>
          labeledCount li + unlabeledCount li = int (length (points s)) \<and>
          sum_list (map snd (faceLabelStats li)) = faceLabeledCount li \<and>
          faceLabeledCount li + faceUnlabeledCount li = int (length (faces s)))"

definition is_APPLY_LABELS :: "action \<Rightarrow> bool" where
  "is_APPLY_LABELS a = (case a of APPLY_LABELS pointIndices l \<Rightarrow> True | _ \<Rightarrow> False)"

section \<open>Selection derivation: properties\<close>

lemma enclosed_touching_face:
  "indices f \<noteq> [] \<Longrightarrow> face_qualifies ''ENCLOSED'' S f \<Longrightarrow> face_qualifies ''TOUCHING'' S f"
  by (cases "indices f") (simp_all add: face_qualifies_def)

text \<open>
  The guard of \<open>calculateSelectedFaces\<close> tests \<open>selectedPoints.size === 0\<close>. For an empty
  \<open>Set\<close> it returns the empty face set before any face is tested.
\<close>

lemma calculateSelectedFaces_empty_Set:
  "calculateSelectedFaces fs ls (Some (SetSel [])) mode = []"
  by (simp add: calculateSelectedFaces_def split: option.splits)

text \<open>
  With an empty array in place of the \<open>Set\<close> the guard does not fire (an array has no
  \<open>size\<close>); the result is empty all the same when every face has a point index.
\<close>

lemma calculateSelectedFaces_empty_array:
  assumes "list_all (\<lambda>f. indices f \<noteq> []) fs"
  shows "calculateSelectedFaces (Some fs) ls (Some (ArraySel [])) mode = []"
proof -
  have "\<not> face_qualifies mode [] f" if "indices f \<noteq> []" for f
    using that by (cases "indices f") (simp_all add: face_qualifies_def list_ex_iff)
  moreover have "indices f \<noteq> []" if "(i, f) \<in> set (enumerate 0 fs)" for i f
    using that assms by (auto simp: list_all_iff in_set_enumerate_eq)
  ultimately have "filter (\<lambda>(faceIndex, f). \<not> face_hidden (labelVisibilityMap ls) f \<and>
                      face_qualifies mode [] f) (enumerate 0 fs) = []"
    by (auto simp: filter_empty_conv)
  then show ?thesis
    by (simp add: calculateSelectedFaces_def)
qed

text \<open>
  C10 does not hold of the code. The store keeps \<open>selectedPoints\<close> as an array, empty at
  the start, and the viewer passes that array to \<open>calculateSelectedFaces\<close>. For the empty
  array the guard on \<open>size === 0\<close> does not fire, and under ENCLOSED a face without point
  indices passes the test that all its indices are selected: with the one face
  \<open>{indices: []}\<close>, no labels and the empty selection of the store, the result is the
  face set \<open>{0}\<close> and not the empty set.
\<close>

theorem calculateSelectedFaces_empty_array_selects_face:
  "selectedPoints initialState = [] \<and>
   calculateSelectedFaces
     (Some [\<lparr>indices = [], faceLabelId = None, faceTextureCoords = None, faceColor = None\<rparr>])
     [] (Some (ArraySel (selectedPoints initialState))) ''ENCLOSED'' = [0]"
  by (simp add: initialState_def calculateSelectedFaces_def face_hidden_def face_qualifies_def
      enumerate_eq_zip)

text \<open>
  C4, as stated, fails: a face with no point index is selected under ENCLOSED (every member
  of the empty index list is selected) and not under TOUCHING.
\<close>

theorem enclosed_subset_touching_counterexample:
  "\<not> set (calculateSelectedFaces
            (Some [\<lparr>indices = [], faceLabelId = None, faceTextureCoords = None,
                    faceColor = None\<rparr>])
            [] (Some (SetSel [0])) ''ENCLOSED'')
      \<subseteq> set (calculateSelectedFaces
            (Some [\<lparr>indices = [], faceLabelId = None, faceTextureCoords = None,
                    faceColor = None\<rparr>])
            [] (Some (SetSel [0])) ''TOUCHING'')"
  by (simp add: calculateSelectedFaces_def face_qualifies_def face_hidden_def
      labelVisibilityMap_def)

text \<open>
  C4, amended: when every face has at least one point index, the faces selected under
  ENCLOSED are among the faces selected under TOUCHING, for the same faces, labels and
  selected points.
\<close>

theorem enclosed_subset_touching:
  assumes "list_all (\<lambda>f. indices f \<noteq> []) fs"
  shows "set (calculateSelectedFaces (Some fs) ls sel ''ENCLOSED'')
           \<subseteq> set (calculateSelectedFaces (Some fs) ls sel ''TOUCHING'')"
proof (cases "fs = [] \<or> sel = None \<or> (\<exists>s. sel = Some s \<and> sel_size s = Some 0)")
  case True
  then show ?thesis
    by (auto simp: calculateSelectedFaces_def split: option.splits)
next
  case False
  then obtain s where s: "sel = Some s" "sel_size s \<noteq> Some 0" "fs \<noteq> []"
    by auto
  have ne: "indices f \<noteq> []" if "(i, f) \<in> set (enumerate 0 fs)" for i f
    using that assms by (auto simp: list_all_iff in_set_enumerate_eq)
  have "set (filter (\<lambda>(faceIndex, f). \<not> face_hidden (labelVisibilityMap ls) f \<and>
                 face_qualifies ''ENCLOSED'' (sel_members s) f) (enumerate 0 fs))
        \<subseteq> set (filter (\<lambda>(faceIndex, f). \<not> face_hidden (labelVisibilityMap ls) f \<and>
                 face_qualifies ''TOUCHING'' (sel_members s) f) (enumerate 0 fs))"
    using ne enclosed_touching_face by auto
  then have "fst ` set (filter (\<lambda>(faceIndex, f). \<not> face_hidden (labelVisibilityMap ls) f \<and>
                 face_qualifies ''ENCLOSED'' (sel_members s) f) (enumerate 0 fs))
        \<subseteq> fst ` set (filter (\<lambda>(faceIndex, f). \<not> face_hidden (labelVisibilityMap ls) f \<and>
                 face_qualifies ''TOUCHING'' (sel_members s) f) (enumerate 0 fs))"
    by (rule image_mono)
  with s show ?thesis
    by (simp add: calculateSelectedFaces_def)
qed

theorem enclosed_subset_touching_witness:
  "set (calculateSelectedFaces
          (Some [\<lparr>indices = [0, 1, 2], faceLabelId = None, faceTextureCoords = None,
                  faceColor = None\<rparr>,
                 \<lparr>indices = [1, 2, 3], faceLabelId = None, faceTextureCoords = None,
                  faceColor = None\<rparr>])
          [] (Some (SetSel [0, 1, 2])) ''ENCLOSED'')
     \<subseteq> set (calculateSelectedFaces
          (Some [\<lparr>indices = [0, 1, 2], faceLabelId = None, faceTextureCoords = None,
                  faceColor = None\<rparr>,
                 \<lparr>indices = [1, 2, 3], faceLabelId = None, faceTextureCoords = None,
                  faceColor = None\<rparr>])
          [] (Some (SetSel [0, 1, 2])) ''TOUCHING'')"
  by (rule enclosed_subset_touching) simp

section \<open>Annotation store: properties\<close>

lemma set_new_Set: "set (new_Set xs) = set xs"
  by (simp add: new_Set_def)

lemma invert_selection_flag:
  "isManualFaceSelection (invert_selection s) = isManualFaceSelection s"
  by (simp add: invert_selection_def Let_def)

lemma invert_selection_points:
  "set (selectedPoints (invert_selection s)) =
     {0 ..< length (points s)} - set (selectedPoints s)"
  by (auto simp add: invert_selection_def Let_def)

lemma invert_selection_faces:
  "hasMesh s \<Longrightarrow> faces s \<noteq> [] \<Longrightarrow>
   set (selectedFaces (invert_selection s)) =
     {0 ..< length (faces s)} - set (selectedFaces s)"
  by (auto simp add: invert_selection_def Let_def set_new_Set)

lemma apply_labels_history:
  "apply_labels s pointIndices l = Inr s' \<Longrightarrow> history s' = history s @ [points s]"
  by (auto simp: apply_labels_def Let_def split: sum.splits)

lemma run_apply_labels_history_length:
  assumes "run_commands s cmds = Inr s'" and "list_all is_APPLY_LABELS cmds"
  shows "length (history s') = length (history s) + length cmds"
  using assms
proof (induction cmds arbitrary: s)
  case Nil
  then show ?case by simp
next
  case (Cons a cmds)
  from Cons.prems(2) obtain pointIndices l where a: "a = APPLY_LABELS pointIndices l"
    by (cases a) (auto simp: is_APPLY_LABELS_def)
  from Cons.prems(1) a obtain s1 where s1: "apply_labels s pointIndices l = Inr s1"
    and rest: "run_commands s1 cmds = Inr s'"
    by (auto split: sum.splits)
  from Cons.IH [OF rest] Cons.prems(2)
  have "length (history s') = length (history s1) + length cmds"
    by simp
  with apply_labels_history [OF s1] show ?case by simp
qed

lemma run_replicate_no_throw:
  "run_commands s (replicate n (APPLY_LABELS [] None)) \<noteq> Inl e"
  by (induction n arbitrary: s) (auto simp: apply_labels_def Let_def)




text \<open>
  C2 at a failing input. A mesh file without label definitions is decoded (three points,
  one face, no \<open>labelInfo\<close>) and loaded, then one point is labelled. \<open>APPLY_LABELS\<close>
  substitutes its default statistics, whose \<open>faceUnlabeledCount\<close> is 0, so the face
  counts add up to 0 while the document has one face: the invariant does not hold.
\<close>

theorem apply_labels_loses_face_total:
  "(case run_commands initialState
           [LOAD_FILE_DATA
              (parseGLB_result
                 (replicate 3 \<lparr>position = [0, 0, 0], color = [1, 1, 1], labelId = None,
                                textureCoords = None\<rparr>)
                 [\<lparr>indices = [0, 1, 2], faceLabelId = None, faceTextureCoords = None,
                    faceColor = None\<rparr>]
                 None (Object3D 0 0 True (Some 0) [])
                 \<lparr>meshToPointRange = Some [0 \<mapsto> \<lparr>rstart = 0, rend = 3\<rparr>],
                  meshToFaceRange = Some [0 \<mapsto> \<lparr>rstart = 0, rend = 1\<rparr>]\<rparr>
                 [] None),
            APPLY_LABELS [0] (Some 1)] of
      Inl e \<Rightarrow> False
    | Inr s \<Rightarrow>
        labelInfo s =
          Some \<lparr>labelStats = [(1, 1)], faceLabelStats = [], labeledCount = 1,
                unlabeledCount = 2, faceLabeledCount = 0, faceUnlabeledCount = 0\<rparr> \<and>
        length (faces s) = 1 \<and> \<not> stats_invariant s)"
  by (simp add: initialState_def parseGLB_result_def load_file_data_def load_labelInfo_def
      has_exact_counts_def apply_labels_def apply_label_to_points_def
      default_labelInfo_points_def remove_old_label_def add_new_label_def stat_increment_def
      stats_invariant_def numeral_eq_Suc)

text \<open>
  C6 at a failing input. With a mesh present, \<open>INVERT_SELECTION\<close> replaces the point
  selection \<open>[0]\<close> by its complement \<open>[1, 2]\<close> and the face selection \<open>{1}\<close> by its
  complement \<open>{0}\<close>, and the manual-face-selection flag, false before, is false after.
\<close>

theorem invert_selection_manual_flag_unset:
  "annotationReducer
     (initialState
        \<lparr>points := replicate 3 \<lparr>position = [0, 0, 0], color = [1, 1, 1], labelId = None,
                                 textureCoords = None\<rparr>,
         hasMesh := True,
         faces := [\<lparr>indices = [0, 1, 2], faceLabelId = None, faceTextureCoords = None,
                     faceColor = None\<rparr>,
                   \<lparr>indices = [0, 1, 2], faceLabelId = None, faceTextureCoords = None,
                     faceColor = None\<rparr>],
         selectedPoints := [0], selectedFaces := [1]\<rparr>)
     INVERT_SELECTION
   = Inr (initialState
        \<lparr>points := replicate 3 \<lparr>position = [0, 0, 0], color = [1, 1, 1], labelId = None,
                                 textureCoords = None\<rparr>,
         hasMesh := True,
         faces := [\<lparr>indices = [0, 1, 2], faceLabelId = None, faceTextureCoords = None,
                     faceColor = None\<rparr>,
                   \<lparr>indices = [0, 1, 2], faceLabelId = None, faceTextureCoords = None,
                     faceColor = None\<rparr>],
         selectedPoints := [1, 2], selectedFaces := [0],
         isManualFaceSelection := False\<rparr>)"
  by (simp add: initialState_def invert_selection_def new_Set_def upt_rec numeral_eq_Suc)

text \<open>
  C7, as stated, fails: no cap bounds the undo history. Labelling the empty set of
  points \<open>cap + 1\<close> times from the initial state leaves \<open>cap + 1\<close> snapshots.
\<close>

theorem history_bounded_counterexample:
  "\<not> (\<exists>cap. \<forall>cmds s'.
          run_commands initialState cmds = Inr s' \<longrightarrow> length (history s') \<le> cap)"
proof
  assume "\<exists>cap. \<forall>cmds s'.
            run_commands initialState cmds = Inr s' \<longrightarrow> length (history s') \<le> cap"
  then obtain cap where cap:
    "\<And>cmds s'. run_commands initialState cmds = Inr s' \<Longrightarrow> length (history s') \<le> cap"
    by blast
  let ?cmds = "replicate (Suc cap) (APPLY_LABELS [] None)"
  obtain s' where s': "run_commands initialState ?cmds = Inr s'"
    using run_replicate_no_throw [of initialState "Suc cap"]
    by (cases "run_commands initialState ?cmds") auto
  have "list_all is_APPLY_LABELS ?cmds"
    by (simp add: list_all_iff is_APPLY_LABELS_def)
  from run_apply_labels_history_length [OF s' this] have "length (history s') = Suc cap"
    by (simp add: initialState_def)
  with cap [OF s'] show False by simp
qed

text \<open>
  C7, amended: the points-snapshot undo history has no cap. Every \<open>APPLY_LABELS\<close> command
  that returns appends exactly one snapshot, so after a run of such commands the history
  is longer than before by the number of commands.
\<close>

theorem history_grows_with_every_assignment:
  assumes "run_commands s cmds = Inr s'" and "list_all is_APPLY_LABELS cmds"
  shows "length (history s') = length (history s) + length cmds"
  using assms by (rule run_apply_labels_history_length)

theorem history_grows_with_every_assignment_witness:
  "run_commands initialState [APPLY_LABELS [] (Some 1), APPLY_LABELS [] None]
     = Inr (initialState\<lparr>labelInfo := Some (default_labelInfo_points initialState),
                         history := [[], []]\<rparr>) \<and>
   length (history (initialState\<lparr>labelInfo := Some (default_labelInfo_points initialState),
                         history := [[], []]\<rparr>)) = length (history initialState) + 2"
proof -
  have run: "run_commands initialState [APPLY_LABELS [] (Some 1), APPLY_LABELS [] None]
     = Inr (initialState\<lparr>labelInfo := Some (default_labelInfo_points initialState),
                         history := [[], []]\<rparr>)"
    by (simp add: initialState_def apply_labels_def apply_label_to_points_def
        default_labelInfo_points_def)
  have "list_all is_APPLY_LABELS [APPLY_LABELS [] (Some 1), APPLY_LABELS [] None]"
    by (simp add: is_APPLY_LABELS_def)
  from history_grows_with_every_assignment [OF run this] run show ?thesis
    by simp
qed

section \<open>Colour normalisation: properties\<close>

text \<open>
  C8, as stated, fails: a negative channel value is at most 1 and does not pass through
  unchanged, it is clamped to 0.
\<close>

theorem normalizeColorValue_counterexample:
  "(- 1 / 2 :: real) \<le> 1 \<and> normalizeColorValue (- 1 / 2) \<noteq> - 1 / 2"
  by (simp add: normalizeColorValue_def)

text \<open>
  C8, amended: a value greater than 1 is scaled by the source's constant for 1/255 and
  clamped into [0,1]; a value in [0,1] passes through unchanged; a negative value is
  clamped to 0.
\<close>

theorem normalizeColorValue_cases:
  "(1 < v \<longrightarrow> normalizeColorValue v = min 1 (v * 0.00392156862745098) \<and>
               0 \<le> normalizeColorValue v \<and> normalizeColorValue v \<le> 1) \<and>
   (0 \<le> v \<and> v \<le> 1 \<longrightarrow> normalizeColorValue v = v) \<and>
   (v < 0 \<longrightarrow> normalizeColorValue v = 0)"
  by (auto simp: normalizeColorValue_def Let_def min_def)

theorem normalizeColorValue_cases_witness:
  "normalizeColorValue 255 = min 1 (255 * 0.00392156862745098) \<and>
   normalizeColorValue (1 / 2) = 1 / 2 \<and> normalizeColorValue (- 3) = 0"
  using normalizeColorValue_cases [of 255] normalizeColorValue_cases [of "1 / 2"]
    normalizeColorValue_cases [of "- 3"]
  by simp

section \<open>Mesh-exchange encode: properties\<close>

lemma partitions_from_le: "partitions_from s rs n \<Longrightarrow> s \<le> n"
proof (induction rs arbitrary: s)
  case Nil
  then show ?case by simp
next
  case (Cons r rs)
  then obtain rg :: range where "s \<le> rend rg" "partitions_from (rend rg) rs n"
    by (auto split: option.splits)
  with Cons.IH [of "rend rg"] show ?case by simp
qed

lemma js_slice_take_drop:
  "0 \<le> a \<Longrightarrow> a \<le> b \<Longrightarrow> b \<le> int (length xs) \<Longrightarrow>
   js_slice xs a b = take (nat (b - a)) (drop (nat a) xs)"
  by (simp add: js_slice_def Let_def min_def)

lemma drop_split:
  assumes "0 \<le> a" "a \<le> b"
  shows "drop (nat a) xs = take (nat (b - a)) (drop (nat a) xs) @ drop (nat b) xs"
proof -
  have "nat b = nat (b - a) + nat a" using assms by simp
  then have "drop (nat b) xs = drop (nat (b - a)) (drop (nat a) xs)"
    by (simp only: drop_drop)
  then show ?thesis by (simp only: append_take_drop_id)
qed

lemma concat_slices:
  "partitions_from s rs (int (length xs)) \<Longrightarrow> 0 \<le> s \<Longrightarrow>
   concat (map (\<lambda>r. case r of None \<Rightarrow> [] | Some rg \<Rightarrow> js_slice xs (rstart rg) (rend rg)) rs)
     = drop (nat s) xs"
proof (induction rs arbitrary: s)
  case Nil
  then show ?case by simp
next
  case (Cons r rs)
  from Cons.prems(1) obtain rg where r: "r = Some rg" and st: "rstart rg = s"
    and le: "s \<le> rend rg" and rest: "partitions_from (rend rg) rs (int (length xs))"
    by (auto split: option.splits)
  from partitions_from_le [OF rest] have up: "rend rg \<le> int (length xs)" .
  from Cons.IH [OF rest] le Cons.prems(2)
  have ih: "concat (map (\<lambda>r. case r of None \<Rightarrow> [] | Some rg \<Rightarrow> js_slice xs (rstart rg) (rend rg)) rs)
     = drop (nat (rend rg)) xs" by simp
  have "js_slice xs (rstart rg) (rend rg) = take (nat (rend rg - s)) (drop (nat s) xs)"
    using js_slice_take_drop [OF Cons.prems(2) le up] st by simp
  with ih r drop_split [OF Cons.prems(2) le, of xs] show ?case by simp
qed

lemma userDataOf_attach_point_labels [simp]:
  "userDataOf (attach_point_labels ps pr g st) = userDataOf st"
  by (simp add: attach_point_labels_def split: option.splits)

lemma userDataOf_set_userData_other:
  "n \<noteq> node \<Longrightarrow> userDataOf (set_userData node key v st) n = userDataOf st n"
  by (simp add: set_userData_def)

lemma map_of_set_userData:
  "map_of (userDataOf (set_userData node key v st) node) k
     = (if k = key then Some v else map_of (userDataOf st node) k)"
  by (simp add: set_userData_def update_conv')

lemma attach_mesh_other:
  "n \<noteq> oid cm \<Longrightarrow>
   userDataOf (attach_mesh prm frm ps fl ls h i om cm st) n = userDataOf st n"
  by (simp add: attach_mesh_def attach_global_metadata_def attach_face_labels_def
      userDataOf_set_userData_other Let_def split: option.splits)

lemma faceLabelsOf_cong:
  "userDataOf st' (oid c) = userDataOf st (oid c) \<Longrightarrow> faceLabelsOf st' c = faceLabelsOf st c"
  by (simp add: faceLabelsOf_def)

lemma attach_mesh_faceLabels:
  assumes "geometry cm \<noteq> None" "prm (uuid om) \<noteq> None" "frm (uuid om) = Some rg"
    and "fl = [] \<Longrightarrow> map_of (userDataOf st (oid cm)) ''faceLabels'' = None"
  shows "faceLabelsOf (attach_mesh prm frm ps fl ls h i om cm st) cm
           = js_slice fl (rstart rg) (rend rg)"
proof (cases "fl = []")
  case True
  with assms show ?thesis
    by (auto simp add: attach_mesh_def attach_global_metadata_def attach_face_labels_def
      faceLabelsOf_def map_of_set_userData Let_def js_slice_def split: option.splits)
next
  case False
  with assms(1-3) show ?thesis
    by (auto simp add: attach_mesh_def attach_global_metadata_def attach_face_labels_def
      faceLabelsOf_def map_of_set_userData Let_def split: option.splits)
qed

lemma attach_loop_other:
  "n \<notin> oid ` set cms \<Longrightarrow>
   userDataOf (attach_loop prm frm ps fl ls h i oms cms st) n = userDataOf st n"
proof (induction prm frm ps fl ls h i oms cms st rule: attach_loop.induct)
  case (1 prm frm ps fl ls h i om oms cm cms st)
  then show ?case by (simp add: attach_mesh_other)
qed simp_all

lemma attach_loop_faceLabels:
  assumes "length oms = length cms" "distinct (map oid cms)"
    "list_all (\<lambda>c. geometry c \<noteq> None) cms"
    "list_all (\<lambda>m. prm (uuid m) \<noteq> None) oms"
    "list_all (\<lambda>m. frm (uuid m) \<noteq> None) oms"
    "fl = [] \<Longrightarrow> list_all (\<lambda>c. map_of (userDataOf st (oid c)) ''faceLabels'' = None) cms"
  shows "map (faceLabelsOf (attach_loop prm frm ps fl ls h i oms cms st)) cms
           = map (\<lambda>m. case frm (uuid m) of None \<Rightarrow> []
                   | Some rg \<Rightarrow> js_slice fl (rstart rg) (rend rg)) oms"
  using assms
proof (induction prm frm ps fl ls h i oms cms st rule: attach_loop.induct)
  case (1 prm frm ps fl ls h i om oms cm cms st)
  let ?st1 = "attach_mesh prm frm ps fl ls h i om cm st"
  from "1.prems" obtain rg where rg: "frm (uuid om) = Some rg" by auto
  have notin: "oid cm \<notin> oid ` set cms" using "1.prems"(2) by auto
  have stale: "fl = [] \<Longrightarrow> list_all (\<lambda>c. map_of (userDataOf ?st1 (oid c)) ''faceLabels'' = None) cms"
  proof -
    assume e: "fl = []"
    have "userDataOf ?st1 (oid c) = userDataOf st (oid c)" if "c \<in> set cms" for c
    proof (rule attach_mesh_other)
      show "oid c \<noteq> oid cm" using that notin by (auto simp: image_iff)
    qed
    with "1.prems"(6) [OF e] show ?thesis by (simp add: list_all_iff)
  qed
  have tail: "map (faceLabelsOf (attach_loop prm frm ps fl ls h (Suc i) oms cms ?st1)) cms
           = map (\<lambda>m. case frm (uuid m) of None \<Rightarrow> []
                   | Some rg \<Rightarrow> js_slice fl (rstart rg) (rend rg)) oms"
    using "1.prems" stale by (intro "1.IH") auto
  have "userDataOf (attach_loop prm frm ps fl ls h (Suc i) oms cms ?st1) (oid cm)
          = userDataOf ?st1 (oid cm)"
    using notin by (rule attach_loop_other)
  then have "faceLabelsOf (attach_loop prm frm ps fl ls h (Suc i) oms cms ?st1) cm
          = faceLabelsOf ?st1 cm" by (rule faceLabelsOf_cong)
  also have "\<dots> = js_slice fl (rstart rg) (rend rg)"
    using "1.prems" rg by (intro attach_mesh_faceLabels) auto
  finally show ?case using tail rg by simp
qed simp_all

lemma geometryOf_set_userData [simp]:
  "geometryOf (set_userData node key v st) = geometryOf st"
  by (simp add: set_userData_def)

lemma attach_mesh_geometry_other:
  "geometry cm \<noteq> Some g \<Longrightarrow>
   geometryOf (attach_mesh prm frm ps fl ls h i om cm st) g = geometryOf st g"
  by (auto simp add: attach_mesh_def attach_global_metadata_def attach_face_labels_def
      attach_point_labels_def Let_def split: option.splits)

lemma attach_loop_geometry_other:
  "Some g \<notin> geometry ` set cms \<Longrightarrow>
   geometryOf (attach_loop prm frm ps fl ls h i oms cms st) g = geometryOf st g"
proof (induction prm frm ps fl ls h i oms cms st rule: attach_loop.induct)
  case (1 prm frm ps fl ls h i om oms cm cms st)
  then have "geometry cm \<noteq> Some g" by (auto simp: image_iff)
  with 1 show ?case by (simp add: attach_mesh_geometry_other)
qed simp_all

lemma exportGLB_store:
  "fst (exportGLB clone exporter st sc im ps name fs ls hdr) = st \<or>
   (\<exists>scene prm frm. sc = Some scene \<and>
      (fst (exportGLB clone exporter st sc im ps name fs ls hdr) = fst (clone st scene) \<or>
       fst (exportGLB clone exporter st sc im ps name fs ls hdr)
         = attach_loop prm frm ps (faceLabelIds fs) ls hdr 0 (meshes scene)
             (meshes (snd (clone st scene))) (fst (clone st scene))))"
  by (auto simp: exportGLB_def Let_def split: option.splits prod.splits)

text \<open>
  Frame: \<open>exportGLB\<close> writes the \<open>userData\<close> of cloned mesh nodes and the attributes of
  the geometries that cloned mesh nodes refer to, and nothing else.
\<close>

lemma exportGLB_userData_frame:
  assumes "userDataOf (fst (clone st scene)) n = userDataOf st n"
    and "n \<notin> oid ` set (meshes (snd (clone st scene)))"
  shows "userDataOf (fst (exportGLB clone exporter st (Some scene) im ps name fs ls hdr)) n
           = userDataOf st n"
  using assms
  by (auto simp: exportGLB_def Let_def attach_loop_other split: option.splits prod.splits)

lemma exportGLB_geometry_frame:
  assumes "geometryOf (fst (clone st scene)) g = geometryOf st g"
    and "Some g \<notin> geometry ` set (meshes (snd (clone st scene)))"
  shows "geometryOf (fst (exportGLB clone exporter st (Some scene) im ps name fs ls hdr)) g
           = geometryOf st g"
  using assms
  by (auto simp: exportGLB_def Let_def attach_loop_geometry_other
      split: option.splits prod.splits)

lemma example_clone:
  "three_clone example_store example_scene =
     (example_store\<lparr>userDataOf := (\<lambda>n. []), allocated := 6\<rparr>,
      Object3D 3 3 False None [Object3D 4 4 True (Some 0) [], Object3D 5 5 True (Some 1) []])"
  by (simp add: three_clone_def example_store_def example_scene_def Let_def fun_eq_iff)

text \<open>
  C3. Let the face ranges that the interaction map records for the mesh nodes of the
  scene, in traversal order, partition \<open>[0, totalFaces)\<close>. Then after \<open>exportGLB\<close> every
  cloned mesh node carries the slice of the global face-label array (\<open>labelId\<close>, \<open>null\<close>
  as 0) over the range of the original node at the same position, and the concatenation
  of these arrays in traversal order is the global face-label array. The scene is
  well-formed: the clone has as many mesh nodes as the original (otherwise the export
  stops with an error), they are distinct objects with a geometry, the interaction map
  has a point range wherever it has a face range, and when there are no faces at all the
  cloned nodes carry no face-label array of an earlier export.
\<close>

theorem exportGLB_face_labels_concat:
  assumes clone: "clone st scene = (st1, sceneToExport)"
    and len: "length (meshes sceneToExport) = length (meshes scene)"
    and dist: "distinct (map oid (meshes sceneToExport))"
    and geo: "list_all (\<lambda>c. geometry c \<noteq> None) (meshes sceneToExport)"
    and pr: "list_all (\<lambda>m. prm (uuid m) \<noteq> None) (meshes scene)"
    and part: "partitions_from 0 (map (\<lambda>m. frm (uuid m)) (meshes scene)) (int (length fcs))"
    and stale: "fcs = [] \<Longrightarrow>
       list_all (\<lambda>c. map_of (userDataOf st1 (oid c)) ''faceLabels'' = None)
         (meshes sceneToExport)"
    and st': "st' = fst (exportGLB clone exporter st (Some scene)
                    (Some \<lparr>meshToPointRange = Some prm, meshToFaceRange = Some frm\<rparr>)
                    ps fileName (Some fcs) ls hdr)"
  shows "map (faceLabelsOf st') (meshes sceneToExport)
           = map (\<lambda>m. case frm (uuid m) of
                         None \<Rightarrow> []
                       | Some rg \<Rightarrow> js_slice (faceLabelIds (Some fcs)) (rstart rg) (rend rg))
               (meshes scene) \<and>
         concat (map (faceLabelsOf st') (meshes sceneToExport)) = faceLabelIds (Some fcs)"
proof -
  let ?fl = "faceLabelIds (Some fcs)"
  have lenfl: "length ?fl = length fcs" by (simp add: faceLabelIds_def)
  have st'_eq: "st' = attach_loop prm frm ps ?fl ls hdr 0 (meshes scene)
                        (meshes sceneToExport) st1"
    using st' clone len by (simp add: exportGLB_def Let_def)
  have fr: "list_all (\<lambda>m. frm (uuid m) \<noteq> None) (meshes scene)"
  proof -
    have "partitions_from s (map (\<lambda>m. frm (uuid m)) ms) n \<Longrightarrow>
          list_all (\<lambda>m. frm (uuid m) \<noteq> None) ms" for s ms n
      by (induction ms arbitrary: s) (auto split: option.splits)
    with part show ?thesis by blast
  qed
  have stale': "?fl = [] \<Longrightarrow>
       list_all (\<lambda>c. map_of (userDataOf st1 (oid c)) ''faceLabels'' = None)
         (meshes sceneToExport)"
    using stale by (simp add: faceLabelIds_def)
  have each: "map (faceLabelsOf st') (meshes sceneToExport)
           = map (\<lambda>m. case frm (uuid m) of
                         None \<Rightarrow> []
                       | Some rg \<Rightarrow> js_slice ?fl (rstart rg) (rend rg)) (meshes scene)"
    unfolding st'_eq using len dist geo pr fr stale'
    by (intro attach_loop_faceLabels) simp_all
  have "concat (map (\<lambda>r. case r of None \<Rightarrow> []
                  | Some rg \<Rightarrow> js_slice ?fl (rstart rg) (rend rg))
          (map (\<lambda>m. frm (uuid m)) (meshes scene))) = drop (nat 0) ?fl"
    using part lenfl by (intro concat_slices) simp_all
  then have "concat (map (\<lambda>m. case frm (uuid m) of None \<Rightarrow> []
                  | Some rg \<Rightarrow> js_slice ?fl (rstart rg) (rend rg)) (meshes scene)) = ?fl"
    by (simp add: comp_def)
  with each show ?thesis by simp
qed

theorem exportGLB_face_labels_concat_witness:
  "map (faceLabelsOf
          (fst (exportGLB three_clone (\<lambda>st sc name. Inr name) example_store (Some example_scene)
                  (Some example_mapping) example_points ''model'' (Some example_faces) []
                  None)))
     [Object3D 4 4 True (Some 0) [], Object3D 5 5 True (Some 1) []] = [[7], [0, 2]] \<and>
   concat (map (faceLabelsOf
          (fst (exportGLB three_clone (\<lambda>st sc name. Inr name) example_store (Some example_scene)
                  (Some example_mapping) example_points ''model'' (Some example_faces) []
                  None)))
     [Object3D 4 4 True (Some 0) [], Object3D 5 5 True (Some 1) []]) = [7, 0, 2]"
proof -
  let ?prm = "[1 \<mapsto> \<lparr>rstart = 0, rend = 3\<rparr>, 2 \<mapsto> \<lparr>rstart = 3, rend = 6\<rparr>]"
  let ?frm = "[1 \<mapsto> \<lparr>rstart = 0, rend = 1\<rparr>, 2 \<mapsto> \<lparr>rstart = 1, rend = 3\<rparr>]"
  let ?clone = "Object3D 3 3 False None
                  [Object3D 4 4 True (Some 0) [], Object3D 5 5 True (Some 1) []]"
  have m: "meshes example_scene = [Object3D 1 1 True (Some 0) [], Object3D 2 2 True (Some 1) []]"
    by (simp add: example_scene_def meshes_def)
  have m': "meshes ?clone = [Object3D 4 4 True (Some 0) [], Object3D 5 5 True (Some 1) []]"
    by (simp add: meshes_def)
  have fl: "faceLabelIds (Some example_faces) = [7, 0, 2]"
    by (simp add: faceLabelIds_def example_faces_def)
  have h2: "length (meshes ?clone) = length (meshes example_scene)"
    unfolding m m' by simp
  have h3: "distinct (map oid (meshes ?clone))"
    unfolding m' by simp
  have h4: "list_all (\<lambda>c. geometry c \<noteq> None) (meshes ?clone)"
    unfolding m' by simp
  have h5: "list_all (\<lambda>m. ?prm (uuid m) \<noteq> None) (meshes example_scene)"
    unfolding m by simp
  have h6: "partitions_from 0 (map (\<lambda>m. ?frm (uuid m)) (meshes example_scene))
              (int (length example_faces))"
    unfolding m by (simp add: example_faces_def)
  have h7: "example_faces = [] \<Longrightarrow>
       list_all (\<lambda>c. map_of (userDataOf (example_store\<lparr>userDataOf := (\<lambda>n. []), allocated := 6\<rparr>)
                                 (oid c)) ''faceLabels'' = None) (meshes ?clone)"
    by (simp add: example_faces_def)
  note inst = exportGLB_face_labels_concat
    [where clone = three_clone and st = example_store and scene = example_scene
       and prm = ?prm and frm = ?frm and fcs = example_faces
       and exporter = "\<lambda>st sc name. Inr name" and ps = example_points
       and fileName = "''model''" and ls = "[]" and hdr = None,
     OF example_clone h2 h3 h4 h5 h6 h7 refl]
  then show ?thesis
    unfolding m m' fl example_mapping_def by (simp add: js_slice_def)
qed

text \<open>
  C5 at a failing input. The clone made by the scene library shares the geometry of each
  mesh with the original, so the per-vertex label attribute that \<open>exportGLB\<close> sets on the
  geometry of a cloned mesh is set on the geometry of the original mesh: the original
  node with geometry 0 has no \<open>_label_id\<close> attribute before the export and has one after.
\<close>

theorem exportGLB_writes_shared_geometry:
  "Object3D 1 1 True (Some 0) [] \<in> set (traverse example_scene) \<and>
   map_of (geometryOf example_store 0) ''_label_id'' = None \<and>
   map_of (geometryOf
             (fst (exportGLB three_clone (\<lambda>st sc name. Inr name) example_store
                     (Some example_scene) (Some example_mapping) example_points ''model''
                     (Some example_faces) [] None)) 0) ''_label_id''
     = Some (Int32Attribute [1, 0, 0] 1)"
proof -
  have m: "meshes example_scene = [Object3D 1 1 True (Some 0) [], Object3D 2 2 True (Some 1) []]"
    by (simp add: example_scene_def meshes_def)
  have m': "meshes (Object3D 3 3 False None
                  [Object3D 4 4 True (Some 0) [], Object3D 5 5 True (Some 1) []])
             = [Object3D 4 4 True (Some 0) [], Object3D 5 5 True (Some 1) []]"
    by (simp add: meshes_def)
  have plm: "pointLabelMap example_points = [(0, 1)]"
    by (simp add: pointLabelMap_def example_points_def)
  have pla: "point_label_array example_points \<lparr>rstart = 0, rend = 3\<rparr> 3 = [1, 0, 0]"
    unfolding point_label_array_def plm
    by (simp add: toInt32_def upt_rec numeral_eq_Suc example_points_def)
  have "Object3D 1 1 True (Some 0) [] \<in> set (traverse example_scene)"
    by (simp add: example_scene_def)
  moreover have "map_of (geometryOf example_store 0) ''_label_id'' = None"
    by (simp add: example_store_def)
  moreover have "map_of (geometryOf
             (fst (exportGLB three_clone (\<lambda>st sc name. Inr name) example_store
                     (Some example_scene) (Some example_mapping) example_points ''model''
                     (Some example_faces) [] None)) 0) ''_label_id''
     = Some (Int32Attribute [1, 0, 0] 1)"
  proof -
    have run: "fst (exportGLB three_clone (\<lambda>st sc name. Inr name) example_store
                     (Some example_scene) (Some example_mapping) example_points ''model''
                     (Some example_faces) [] None)
       = attach_loop [1 \<mapsto> \<lparr>rstart = 0, rend = 3\<rparr>, 2 \<mapsto> \<lparr>rstart = 3, rend = 6\<rparr>]
           [1 \<mapsto> \<lparr>rstart = 0, rend = 1\<rparr>, 2 \<mapsto> \<lparr>rstart = 1, rend = 3\<rparr>]
           example_points (faceLabelIds (Some example_faces)) [] None 0
           [Object3D 1 1 True (Some 0) [], Object3D 2 2 True (Some 1) []]
           [Object3D 4 4 True (Some 0) [], Object3D 5 5 True (Some 1) []]
           (example_store\<lparr>userDataOf := (\<lambda>n. []), allocated := 6\<rparr>)"
      by (simp add: exportGLB_def example_clone example_mapping_def m m' del: One_nat_def)
    show ?thesis
      unfolding run
      by (simp add: attach_mesh_def attach_point_labels_def plm pla
          attach_face_labels_def attach_global_metadata_def set_userData_def
          example_store_def)
  qed
  ultimately show ?thesis by simp
qed

section \<open>Point-cloud decode: properties\<close>

lemma nth_opt_None: "nth_opt xs i = None \<longleftrightarrow> length xs \<le> i"
  by (auto simp: nth_opt_def)

lemma point_stats_no_hole: "point_stats ps acc = Inr r \<Longrightarrow> None \<notin> set ps"
  by (induction ps acc rule: point_stats.induct) (auto split: option.splits)

lemma face_stats_no_hole: "face_stats fs acc = Inr r \<Longrightarrow> None \<notin> set fs"
  by (induction fs acc rule: face_stats.induct) (auto split: option.splits if_splits)


lemma array_length_nat [simp]: "array_length (Num (real n)) = (if real n < 2 ^ 32 then Inr n else Inl RangeError)"
  by (simp add: array_length_def)

























end
